theory Spec2Isabelle
  imports Main
begin

section \<open>Python values used by the template scripts\<close>

text \<open>
  The repository is an Android project template with two Python scripts:
  \<^verbatim>\<open>scripts/validator.py\<close> (class \<^verbatim>\<open>AndroidTemplateValidator\<close> and the function
  \<^verbatim>\<open>validate_template_inputs\<close>) and \<^verbatim>\<open>hooks/post_gen_project.py\<close> (the function
  \<^verbatim>\<open>main\<close>). Both are embedded below, function by function.

  A Python \<^verbatim>\<open>str\<close> is an Isabelle \<^typ>\<open>string\<close>: one \<^typ>\<open>char\<close> per code point, so
  the strings covered are those whose code points lie in 0..255. The library functions
  the scripts call on strings (\<^verbatim>\<open>int\<close>, \<^verbatim>\<open>str.lower\<close>, \<^verbatim>\<open>re.match\<close>, \<^verbatim>\<open>len\<close>)
  are defined for exactly these strings, following CPython 3.
\<close>

datatype py_error = ValueError | TimeoutExpired | FileNotFoundError | PermissionError
  | ImportError | JSONDecodeError | KeyboardInterrupt

text \<open>
  \<^verbatim>\<open>except Exception\<close> catches every exception class except those that derive from
  \<^verbatim>\<open>BaseException\<close> only.
\<close>

fun is_Exception :: "py_error \<Rightarrow> bool" where
  "is_Exception KeyboardInterrupt = False"
| "is_Exception e = True"

definition code_point :: "char \<Rightarrow> nat" where
  "code_point c = of_char c"

definition in_range :: "char \<Rightarrow> char \<Rightarrow> char \<Rightarrow> bool" where
  "in_range lo hi c = (code_point lo \<le> code_point c \<and> code_point c \<le> code_point hi)"

definition newline :: char where
  "newline = CHR 0x0A"

definition apostrophe :: char where
  "apostrophe = CHR 0x27"

subsection \<open>\<^verbatim>\<open>int(s)\<close> on a string\<close>

text \<open>
  \<^verbatim>\<open>int(s)\<close> strips white space at both ends (the ASCII white space 9..13 and 32, and
  in a non-ASCII string also U+0085 and U+00A0), reads an optional sign, and then wants
  decimal digits, where single underscores may stand between two digits. Anything else
  raises \<^verbatim>\<open>ValueError\<close>. Since Python 3.11 it also raises \<^verbatim>\<open>ValueError\<close> when the
  literal has more digits than \<^verbatim>\<open>sys.get_int_max_str_digits()\<close> (0 switches the limit
  off; underscores and the sign are not counted, leading zeros are).
\<close>

definition is_digit :: "char \<Rightarrow> bool" where
  "is_digit c = in_range CHR ''0'' CHR ''9'' c"

definition digit_value :: "char \<Rightarrow> nat" where
  "digit_value c = code_point c - 48"

definition is_int_space :: "char \<Rightarrow> bool" where
  "is_int_space c = (code_point c \<in> {9, 10, 11, 12, 13, 32, 133, 160})"

definition strip_int :: "string \<Rightarrow> string" where
  "strip_int s = rev (dropWhile is_int_space (rev (dropWhile is_int_space s)))"

definition split_sign :: "string \<Rightarrow> bool \<times> string" where
  "split_sign t = (case t of
       [] \<Rightarrow> (False, t)
     | c # cs \<Rightarrow> if c = CHR ''-'' then (True, cs)
                else if c = CHR ''+'' then (False, cs) else (False, t))"

fun group_digits :: "string \<Rightarrow> string option" where
  "group_digits [] = None"
| "group_digits [c] = (if is_digit c then Some [c] else None)"
| "group_digits (c # d # cs) =
     (if \<not> is_digit c then None
      else if d = CHR ''_'' then map_option ((#) c) (group_digits cs)
      else map_option ((#) c) (group_digits (d # cs)))"

definition decimal_value :: "string \<Rightarrow> nat" where
  "decimal_value ds = foldl (\<lambda>a c. 10 * a + digit_value c) 0 ds"

definition py_int :: "nat \<Rightarrow> string \<Rightarrow> py_error + int" where
  "py_int max_str_digits s =
     (case split_sign (strip_int s) of (negative, body) \<Rightarrow>
        (case group_digits body of
           None \<Rightarrow> Inl ValueError
         | Some ds \<Rightarrow>
             if 0 < max_str_digits \<and> max_str_digits < length ds then Inl ValueError
             else Inr (if negative then - int (decimal_value ds)
                       else int (decimal_value ds))))"

text \<open>\<^verbatim>\<open>str(i)\<close> of an integer, as the f-strings of the validator format their bounds.\<close>

definition digit_char :: "nat \<Rightarrow> char" where
  "digit_char d = ''0123456789'' ! (d mod 10)"

fun str_nat :: "nat \<Rightarrow> string" where
  "str_nat n = (if n < 10 then [digit_char n] else str_nat (n div 10) @ [digit_char n])"

definition str_int :: "int \<Rightarrow> string" where
  "str_int i = (if i < 0 then CHR ''-'' # str_nat (nat (- i)) else str_nat (nat i))"

subsection \<open>\<^verbatim>\<open>str.lower\<close>\<close>

text \<open>
  In the range 0..255 the upper-case letters are A..Z and U+00C0..U+00DE without the
  multiplication sign U+00D7; each lower-cases to the code point 32 above it.
\<close>

definition lower_char :: "char \<Rightarrow> char" where
  "lower_char c =
     (if in_range CHR ''A'' CHR ''Z'' c \<or> (in_range CHR 0xC0 CHR 0xDE c \<and> c \<noteq> CHR 0xD7)
      then char_of (code_point c + 32) else c)"

definition lower :: "string \<Rightarrow> string" where
  "lower s = map lower_char s"

subsection \<open>\<^verbatim>\<open>re.match\<close>\<close>

text \<open>
  The patterns of the validator use character classes, concatenation, \<^verbatim>\<open>*\<close>, \<^verbatim>\<open>+\<close>,
  \<^verbatim>\<open>?\<close> and \<^verbatim>\<open>{2,}\<close> between \<^verbatim>\<open>^\<close> and \<^verbatim>\<open>$\<close>. Such a pattern has no
  back-reference or look-around, so the backtracking matcher finds a match exactly when
  the regular language has one; the language is decided here with derivatives.
\<close>

datatype rexp = Nothing | Eps | Cls "char \<Rightarrow> bool" | Alt rexp rexp | Seq rexp rexp | Star rexp

fun nullable :: "rexp \<Rightarrow> bool" where
  "nullable Nothing = False"
| "nullable Eps = True"
| "nullable (Cls p) = False"
| "nullable (Alt r s) = (nullable r \<or> nullable s)"
| "nullable (Seq r s) = (nullable r \<and> nullable s)"
| "nullable (Star r) = True"

fun deriv :: "char \<Rightarrow> rexp \<Rightarrow> rexp" where
  "deriv c Nothing = Nothing"
| "deriv c Eps = Nothing"
| "deriv c (Cls p) = (if p c then Eps else Nothing)"
| "deriv c (Alt r s) = Alt (deriv c r) (deriv c s)"
| "deriv c (Seq r s) =
     (if nullable r then Alt (Seq (deriv c r) s) (deriv c s) else Seq (deriv c r) s)"
| "deriv c (Star r) = Seq (deriv c r) (Star r)"

definition fullmatch :: "rexp \<Rightarrow> string \<Rightarrow> bool" where
  "fullmatch r s = nullable (fold deriv s r)"

definition Plus :: "rexp \<Rightarrow> rexp" where
  "Plus r = Seq r (Star r)"

definition Opt :: "rexp \<Rightarrow> rexp" where
  "Opt r = Alt r Eps"

definition At_least_2 :: "rexp \<Rightarrow> rexp" where
  "At_least_2 r = Seq r (Seq r (Star r))"

definition Lit :: "char \<Rightarrow> rexp" where
  "Lit a = Cls (\<lambda>c. c = a)"

text \<open>
  \<^verbatim>\<open>re.match('^R$', s)\<close> without flags: \<^verbatim>\<open>^\<close> is the start of the string, and
  \<^verbatim>\<open>$\<close> matches at the end of the string and also just before a newline that is the
  last character of the string.
\<close>

definition re_match :: "rexp \<Rightarrow> string \<Rightarrow> bool" where
  "re_match r s = (fullmatch r s \<or> (s \<noteq> [] \<and> last s = newline \<and> fullmatch r (butlast s)))"

definition upper_AZ :: "char \<Rightarrow> bool" where
  "upper_AZ c = in_range CHR ''A'' CHR ''Z'' c"

definition lower_az :: "char \<Rightarrow> bool" where
  "lower_az c = in_range CHR ''a'' CHR ''z'' c"

text \<open>The five patterns of \<^verbatim>\<open>validator.py\<close>, without their anchors.\<close>

definition project_name_pattern :: rexp where
  "project_name_pattern =
     Seq (Cls (\<lambda>c. upper_AZ c \<or> lower_az c))
         (Star (Cls (\<lambda>c. upper_AZ c \<or> lower_az c \<or> is_digit c \<or> c = CHR ''_'')))"

definition package_segment :: rexp where
  "package_segment = Seq (Cls lower_az) (Star (Cls (\<lambda>c. lower_az c \<or> is_digit c \<or> c = CHR ''_'')))"

definition package_name_pattern :: rexp where
  "package_name_pattern = Seq package_segment (Star (Seq (Lit CHR ''.'') package_segment))"

definition email_pattern :: rexp where
  "email_pattern =
     Seq (Plus (Cls (\<lambda>c. lower_az c \<or> upper_AZ c \<or> is_digit c \<or> c \<in> set ''._%+-'')))
    (Seq (Lit CHR ''@'')
    (Seq (Plus (Cls (\<lambda>c. lower_az c \<or> upper_AZ c \<or> is_digit c \<or> c \<in> set ''.-'')))
    (Seq (Lit CHR ''.'')
         (At_least_2 (Cls (\<lambda>c. lower_az c \<or> upper_AZ c))))))"

definition semver_tail :: rexp where
  "semver_tail = Plus (Cls (\<lambda>c. lower_az c \<or> upper_AZ c \<or> is_digit c \<or> c \<in> set ''.-''))"

definition semver_pattern :: rexp where
  "semver_pattern =
     Seq (Plus (Cls is_digit))
    (Seq (Lit CHR ''.'')
    (Seq (Plus (Cls is_digit))
    (Seq (Lit CHR ''.'')
    (Seq (Plus (Cls is_digit))
    (Seq (Opt (Seq (Lit CHR ''-'') semver_tail))
         (Opt (Seq (Lit CHR ''+'') semver_tail)))))))"

section \<open>\<^verbatim>\<open>scripts/validator.py\<close>\<close>

subsection \<open>The validator object and the host it runs on\<close>

text \<open>
  An \<^verbatim>\<open>AndroidTemplateValidator\<close> has two attributes, the lists \<^verbatim>\<open>errors\<close> and
  \<^verbatim>\<open>warnings\<close>. A method takes the object and returns it updated, together with what
  the call produced: \<open>Inr\<close> the returned value, or \<open>Inl\<close> the exception that left the
  method. The calls to the \<^verbatim>\<open>logger\<close> module (not part of the sources at hand) write
  status lines only and touch neither attribute, so they do not appear.
\<close>

record validator =
  errors :: "string list"
  warnings :: "string list"

type_synonym 'a res = "(py_error + 'a) \<times> validator"

type_synonym tri = "bool \<times> string list \<times> string list"

type_synonym pycontext = "string \<rightharpoonup> string"

definition AndroidTemplateValidator :: validator where
  "AndroidTemplateValidator = \<lparr>errors = [], warnings = []\<rparr>"

definition errors_append :: "validator \<Rightarrow> string \<Rightarrow> validator" where
  "errors_append self msg = self\<lparr>errors := errors self @ [msg]\<rparr>"

definition warnings_append :: "validator \<Rightarrow> string \<Rightarrow> validator" where
  "warnings_append self msg = self\<lparr>warnings := warnings self @ [msg]\<rparr>"

definition and_then :: "'a res \<Rightarrow> ('a \<Rightarrow> validator \<Rightarrow> 'b res) \<Rightarrow> 'b res" where
  "and_then m f = (case m of (Inl e, self) \<Rightarrow> (Inl e, self) | (Inr x, self) \<Rightarrow> f x self)"

text \<open>
  What the scripts read from the machine they run on. \<open>'p\<close> is the type of
  \<^verbatim>\<open>pathlib.Path\<close> objects; the operations of \<^verbatim>\<open>pathlib\<close> are fields, so every
  theorem holds for whatever they compute. \<open>files\<close> is the set of paths that exist
  (\<^verbatim>\<open>Path.exists\<close>). \<open>java_version_run\<close> is what
  \<^verbatim>\<open>subprocess.run(['java', '-version'], capture_output=True, text=True, timeout=10)\<close>
  does: it returns a completed process with its return code, or raises. The last five
  fields are read by the hook only.
\<close>

datatype completed = Completed int | Raises py_error

record 'p world =
  int_max_str_digits :: nat
  java_version_run :: completed
  Path_home :: 'p
  Path_of :: "string \<Rightarrow> 'p"
  Path_join :: "'p \<Rightarrow> string \<Rightarrow> 'p"
  Path_name :: "'p \<Rightarrow> string"
  Path_str :: "'p \<Rightarrow> string"
  files :: "'p set"
  getcwd :: string
  json_load :: "'p \<Rightarrow> py_error + pycontext"
  scripts_importable :: bool
  generate_requirements_md :: "py_error + string"
  write_text :: "'p \<Rightarrow> string \<Rightarrow> py_error option"

subsection \<open>The field validators\<close>

definition reserved_words :: "string list" where
  "reserved_words = [''android'', ''test'', ''main'', ''java'', ''kotlin'', ''gradle'']"

definition validate_project_name :: "validator \<Rightarrow> string \<Rightarrow> bool res" where
  "validate_project_name self name =
     (if name = [] then
        (Inr False, errors_append self ''Project name cannot be empty'')
      else if \<not> re_match project_name_pattern name then
        (Inr False, errors_append self
           ''Project name must start with a letter and contain only letters, numbers, and underscores'')
      else if length name > 50 then
        (Inr False, errors_append self ''Project name must be 50 characters or less'')
      else if lower name \<in> set reserved_words then
        (Inr True, warnings_append self
           (''Project name '' @ [apostrophe] @ name @ [apostrophe]
              @ '' might conflict with Android reserved words''))
      else (Inr True, self))"

definition validate_package_name :: "validator \<Rightarrow> string \<Rightarrow> bool res" where
  "validate_package_name self package =
     (if package = [] then
        (Inr False, errors_append self ''Package name cannot be empty'')
      else if \<not> re_match package_name_pattern package then
        (Inr False, errors_append self
           ''Package name must follow Java package naming conventions (e.g., com.example.app)'')
      else if length package > 100 then
        (Inr False, errors_append self ''Package name must be 100 characters or less'')
      else (Inr True, self))"

text \<open>
  The two integer validators wrap \<^verbatim>\<open>int(version)\<close> in \<^verbatim>\<open>try ... except ValueError\<close>:
  only that exception is turned into a message, any other would leave the method.
\<close>

definition validate_sdk_version ::
    "'p world \<Rightarrow> validator \<Rightarrow> string \<Rightarrow> int \<Rightarrow> int \<Rightarrow> bool res" where
  "validate_sdk_version w self version min_version max_version =
     (case py_int (int_max_str_digits w) version of
        Inr version_int \<Rightarrow>
          if version_int < min_version \<or> version_int > max_version then
            (Inr False, errors_append self
               (''SDK version must be between '' @ str_int min_version @ '' and ''
                  @ str_int max_version))
          else (Inr True, self)
      | Inl e \<Rightarrow>
          if e = ValueError then
            (Inr False, errors_append self ''SDK version must be a valid integer'')
          else (Inl e, self))"

definition validate_java_version :: "'p world \<Rightarrow> validator \<Rightarrow> string \<Rightarrow> bool res" where
  "validate_java_version w self version =
     (case py_int (int_max_str_digits w) version of
        Inr version_int \<Rightarrow>
          if version_int < 8 \<or> version_int > 21 then
            (Inr False, errors_append self ''Java version must be between 8 and 21'')
          else (Inr True, self)
      | Inl e \<Rightarrow>
          if e = ValueError then
            (Inr False, errors_append self ''Java version must be a valid integer'')
          else (Inl e, self))"

definition validate_email :: "validator \<Rightarrow> string \<Rightarrow> bool res" where
  "validate_email self email =
     (if email = [] then
        (Inr True, warnings_append self ''Email address is empty (optional but recommended)'')
      else if \<not> re_match email_pattern email then
        (Inr False, errors_append self ''Invalid email address format'')
      else (Inr True, self))"

definition validate_version_name :: "validator \<Rightarrow> string \<Rightarrow> bool res" where
  "validate_version_name self version =
     (if version = [] then
        (Inr False, errors_append self ''Version name cannot be empty'')
      else if \<not> re_match semver_pattern version then
        (Inr True, warnings_append self
           ''Version name should follow semantic versioning (e.g., 1.0.0)'')
      else (Inr True, self))"

subsection \<open>\<^verbatim>\<open>validate_environment\<close>\<close>

text \<open>
  The method is three blocks in a row. The first catches \<^verbatim>\<open>TimeoutExpired\<close> and
  \<^verbatim>\<open>FileNotFoundError\<close> and nothing else. The other two walk a list of candidate
  paths and stop at the first that exists.
\<close>

definition check_java :: "'p world \<Rightarrow> validator \<Rightarrow> unit res" where
  "check_java w self =
     (case java_version_run w of
        Completed returncode \<Rightarrow>
          if returncode = 0 then (Inr (), self)
          else (Inr (), errors_append self ''Java is not properly installed'')
      | Raises e \<Rightarrow>
          if e = TimeoutExpired \<or> e = FileNotFoundError then
            (Inr (), errors_append self ''Java is not installed'')
          else (Inl e, self))"

fun found_in :: "'p set \<Rightarrow> 'p list \<Rightarrow> bool" where
  "found_in fs [] = False"
| "found_in fs (p # ps) = (if p \<in> fs then True else found_in fs ps)"

definition sdk_paths :: "'p world \<Rightarrow> 'p list" where
  "sdk_paths w =
     [Path_join w (Path_home w) ''Library/Android/sdk'',
      Path_join w (Path_home w) ''Android/Sdk'',
      Path_join w (Path_join w (Path_of w ''C:/Users'') (Path_name w (Path_home w)))
        ''AppData/Local/Android/Sdk'']"

definition check_android_sdk :: "'p world \<Rightarrow> validator \<Rightarrow> unit res" where
  "check_android_sdk w self =
     (let sdk_found = found_in (files w) (sdk_paths w)
      in if \<not> sdk_found then
           (Inr (), warnings_append self ''Android SDK not found in common locations'')
         else (Inr (), self))"

definition studio_paths :: "'p world \<Rightarrow> string list" where
  "studio_paths w =
     [''/Applications/Android Studio.app'',
      Path_str w (Path_join w (Path_home w) ''android-studio''),
      ''C:/Program Files/Android/Android Studio'']"

definition check_android_studio :: "'p world \<Rightarrow> validator \<Rightarrow> unit res" where
  "check_android_studio w self =
     (let studio_found = found_in (files w) (map (Path_of w) (studio_paths w))
      in if \<not> studio_found then
           (Inr (), warnings_append self ''Android Studio not found in common locations'')
         else (Inr (), self))"

definition validate_environment :: "'p world \<Rightarrow> validator \<Rightarrow> bool res" where
  "validate_environment w self =
     and_then (check_java w self) (\<lambda>_ self.
     and_then (check_android_sdk w self) (\<lambda>_ self.
     and_then (check_android_studio w self) (\<lambda>_ self.
       (Inr (length (errors self) = 0), self))))"

subsection \<open>\<^verbatim>\<open>validate_all\<close> and \<^verbatim>\<open>validate_template_inputs\<close>\<close>

text \<open>
  \<^verbatim>\<open>required_fields\<close> is a dict literal, walked in the order it is written. Each
  entry pairs a field name with the bound method (or lambda) that checks its value.
\<close>

type_synonym rule = "validator \<Rightarrow> string \<Rightarrow> bool res"

definition required_fields :: "'p world \<Rightarrow> (string \<times> rule) list" where
  "required_fields w =
     [(''project_name'', validate_project_name),
      (''package_name'', validate_package_name),
      (''min_sdk'', \<lambda>self x. validate_sdk_version w self x 21 35),
      (''target_sdk'', \<lambda>self x. validate_sdk_version w self x 21 35),
      (''compile_sdk'', \<lambda>self x. validate_sdk_version w self x 21 35),
      (''java_version'', validate_java_version w),
      (''version_name'', validate_version_name)]"

fun check_fields :: "(string \<times> rule) list \<Rightarrow> pycontext \<Rightarrow> validator \<Rightarrow> unit res" where
  "check_fields [] context self = (Inr (), self)"
| "check_fields ((field, rule) # rest) context self =
     (case context field of
        Some v \<Rightarrow> and_then (rule self v) (\<lambda>_ self. check_fields rest context self)
      | None \<Rightarrow>
          check_fields rest context
            (errors_append self
               (''Required field '' @ [apostrophe] @ field @ [apostrophe] @ '' is missing'')))"

definition check_author_email :: "pycontext \<Rightarrow> validator \<Rightarrow> unit res" where
  "check_author_email context self =
     (case context ''author_email'' of
        Some v \<Rightarrow> and_then (validate_email self v) (\<lambda>_ self. (Inr (), self))
      | None \<Rightarrow> (Inr (), self))"

definition validate_all :: "'p world \<Rightarrow> validator \<Rightarrow> pycontext \<Rightarrow> tri res" where
  "validate_all w self context =
     and_then (check_fields (required_fields w) context self) (\<lambda>_ self.
     and_then (check_author_email context self) (\<lambda>_ self.
     and_then (validate_environment w self) (\<lambda>_ self.
       (Inr (length (errors self) = 0, errors self, warnings self), self))))"

text \<open>
  \<^verbatim>\<open>validate_template_inputs\<close> creates its validator. Objects live in a store, a list
  indexed by address; creating one appends it, and the method call updates it in place.
  The lists in the returned tuple are the attributes of that object.
\<close>

type_synonym store = "validator list"

definition validate_template_inputs ::
    "'p world \<Rightarrow> pycontext \<Rightarrow> store \<Rightarrow> (py_error + tri) \<times> store" where
  "validate_template_inputs w context st =
     (let a = length st;
          st1 = st @ [AndroidTemplateValidator]
      in case validate_all w (st1 ! a) context of
           (r, self) \<Rightarrow> (r, st1[a := self]))"

section \<open>\<^verbatim>\<open>hooks/post_gen_project.py\<close>\<close>

text \<open>
  The hook binds \<^verbatim>\<open>validate_template_inputs\<close> at import time: to the validator's
  function when the two imports from the scripts directory succeed, and otherwise to a
  fallback that accepts every context. \<^verbatim>\<open>main\<close> then runs with that binding, so it
  takes the bound function as an argument. Whether the imports succeed is a fact of the
  host (\<open>scripts_importable\<close>). With \<^verbatim>\<open>validator.py\<close> as it stands, which imports its
  logger relatively, Python 3 raises \<^verbatim>\<open>ImportError\<close> when the hook loads it as a
  top-level module, so a hook started as a script runs with the fallback; the statements
  about \<^verbatim>\<open>main\<close> below hold for either binding.

  A run of \<^verbatim>\<open>main\<close> is described by how it ended, the paths that exist afterwards and
  the status lines it printed (one constructor per status line; banners and the closing
  instructions are left out). \<^verbatim>\<open>sys.exit(1)\<close> ends the run with \<open>SystemExit 1\<close>; an
  exception that nothing catches ends it with \<open>Uncaught\<close>. The calls that \<^verbatim>\<open>main\<close>
  makes outside a \<^verbatim>\<open>try\<close> block on the operating system (\<^verbatim>\<open>os.getcwd\<close>,
  \<^verbatim>\<open>Path.exists\<close>, \<^verbatim>\<open>Path.unlink\<close>, \<^verbatim>\<open>print\<close>) are taken to succeed.
\<close>

datatype report =
    Context_loaded
  | Validation_failed
  | Generated_with_warnings "string list"
  | Validation_completed
  | Context_not_found
  | Missing_required_files "string list"
  | Structure_verified
  | Requirements_generated
  | Requirements_not_generated py_error
  | Temporary_files_cleaned
  | Generation_complete

datatype ending = Returned | SystemExit int | Uncaught py_error

record 'p run =
  ended :: ending
  files_left :: "'p set"
  printed :: "report list"

type_synonym 'p progress = "ending option \<times> 'p set \<times> report list"


definition context_file :: "'p world \<Rightarrow> 'p" where
  "context_file w = Path_join w (Path_of w (getcwd w)) ''cookiecutter_context.json''"

text \<open>Lines 47 to 74: load the context and validate it.\<close>

definition load_and_validate ::
    "(pycontext \<Rightarrow> py_error + tri) \<Rightarrow> 'p world \<Rightarrow> 'p set \<Rightarrow> report list \<Rightarrow> 'p progress" where
  "load_and_validate validate w fs out =
     (if context_file w \<in> fs then
        (case json_load w (context_file w) of
           Inl e \<Rightarrow> (Some (Uncaught e), fs, out)
         | Inr context \<Rightarrow>
             (case validate context of
                Inl e \<Rightarrow> (Some (Uncaught e), fs, out @ [Context_loaded])
              | Inr (is_valid, errs, warns) \<Rightarrow>
                  if \<not> is_valid then
                    (Some (SystemExit 1), fs, out @ [Context_loaded, Validation_failed])
                  else
                    (None, fs,
                     out @ [Context_loaded]
                       @ (if warns \<noteq> [] then [Generated_with_warnings warns] else [])
                       @ [Validation_completed])))
      else (None, fs, out @ [Context_not_found]))"

text \<open>
  Lines 79 to 100, step 1. The loop tests \<^verbatim>\<open>not Path(project_dir) / file_path\<close>,
  the truth value of a \<^verbatim>\<open>Path\<close> object. The class defines neither \<^verbatim>\<open>__bool__\<close> nor
  \<^verbatim>\<open>__len__\<close>, so every \<^verbatim>\<open>Path\<close> object is true.
\<close>

definition required_files :: "string list" where
  "required_files =
     [''app/build.gradle.kts'', ''app/src/main/java'', ''app/src/main/AndroidManifest.xml'',
      ''build.gradle.kts'', ''settings.gradle.kts'', ''gradlew'', ''gradlew.bat'']"

definition truth_of_path :: "'p \<Rightarrow> bool" where
  "truth_of_path p = True"

fun collect_missing :: "'p world \<Rightarrow> string \<Rightarrow> string list \<Rightarrow> string list \<Rightarrow> string list" where
  "collect_missing w project_dir [] missing_files = missing_files"
| "collect_missing w project_dir (file_path # rest) missing_files =
     collect_missing w project_dir rest
       (if \<not> truth_of_path (Path_join w (Path_of w project_dir) file_path)
        then missing_files @ [file_path] else missing_files)"

definition verify_structure :: "'p world \<Rightarrow> 'p set \<Rightarrow> report list \<Rightarrow> 'p progress" where
  "verify_structure w fs out =
     (let missing_files = collect_missing w (getcwd w) required_files []
      in if missing_files \<noteq> [] then
           (Some (SystemExit 1), fs, out @ [Missing_required_files missing_files])
         else (None, fs, out @ [Structure_verified]))"

text \<open>
  Lines 102 to 116, step 2, inside \<^verbatim>\<open>try ... except Exception\<close>: import the generator,
  call it, write what it returned. \<open>try_requirements\<close> is the exception the body of the
  \<^verbatim>\<open>try\<close> raises, if it raises one.
\<close>

definition requirements_file :: "'p world \<Rightarrow> 'p" where
  "requirements_file w = Path_join w (Path_of w (getcwd w)) ''REQUIREMENTS.md''"

definition try_requirements :: "'p world \<Rightarrow> py_error option" where
  "try_requirements w =
     (case generate_requirements_md w of
        Inl e \<Rightarrow> Some e
      | Inr requirements_content \<Rightarrow> write_text w (requirements_file w) requirements_content)"

definition write_requirements :: "'p world \<Rightarrow> 'p set \<Rightarrow> report list \<Rightarrow> 'p progress" where
  "write_requirements w fs out =
     (case try_requirements w of
        None \<Rightarrow> (None, insert (requirements_file w) fs, out @ [Requirements_generated])
      | Some e \<Rightarrow>
          if is_Exception e then (None, fs, out @ [Requirements_not_generated e])
          else (Some (Uncaught e), fs, out))"

text \<open>Lines 118 to 123, step 3.\<close>

definition clean_up :: "'p world \<Rightarrow> 'p set \<Rightarrow> report list \<Rightarrow> 'p progress" where
  "clean_up w fs out =
     (let temp_file = Path_join w (Path_of w (getcwd w)) ''cookiecutter_context.json''
      in if temp_file \<in> fs then (None, fs - {temp_file}, out @ [Temporary_files_cleaned])
         else (None, fs, out))"

definition next_step :: "'p progress \<Rightarrow> ('p set \<Rightarrow> report list \<Rightarrow> 'p progress) \<Rightarrow> 'p progress" where
  "next_step pr step = (case pr of (Some e, fs, out) \<Rightarrow> (Some e, fs, out)
                                 | (None, fs, out) \<Rightarrow> step fs out)"

definition main :: "(pycontext \<Rightarrow> py_error + tri) \<Rightarrow> 'p world \<Rightarrow> 'p run" where
  "main validate w =
     (case next_step (next_step (next_step
              (load_and_validate validate w (files w) [])
              (verify_structure w))
              (write_requirements w))
              (clean_up w) of
        (Some e, fs, out) \<Rightarrow> \<lparr>ended = e, files_left = fs, printed = out\<rparr>
      | (None, fs, out) \<Rightarrow>
          \<lparr>ended = Returned, files_left = fs, printed = out @ [Generation_complete]\<rparr>)"


section \<open>Notions used in the statements\<close>

subsection \<open>The language of a pattern\<close>

definition conc :: "string set \<Rightarrow> string set \<Rightarrow> string set" where
  "conc A B = {u @ v | u v. u \<in> A \<and> v \<in> B}"

inductive_set star :: "string set \<Rightarrow> string set" for A :: "string set" where
  star_nil: "[] \<in> star A"
| star_app: "u \<in> A \<Longrightarrow> v \<in> star A \<Longrightarrow> u @ v \<in> star A"

fun lang :: "rexp \<Rightarrow> string set" where
  "lang Nothing = {}"
| "lang Eps = {[]}"
| "lang (Cls p) = {[c] | c. p c}"
| "lang (Alt r s) = lang r \<union> lang s"
| "lang (Seq r s) = conc (lang r) (lang s)"
| "lang (Star r) = star (lang r)"

definition is_letter :: "char \<Rightarrow> bool" where
  "is_letter c = (upper_AZ c \<or> lower_az c)"

definition is_word_char :: "char \<Rightarrow> bool" where
  "is_word_char c = (upper_AZ c \<or> lower_az c \<or> is_digit c \<or> c = CHR ''_'')"

text \<open>
  The pattern as the specification writes it, \<^verbatim>\<open>^[A-Za-z][A-Za-z0-9_]{0,49}$\<close>: a
  letter followed by at most 49 letters, digits or underscores, and nothing else.
\<close>

definition spec_project_name :: "string \<Rightarrow> bool" where
  "spec_project_name s =
     (case s of [] \<Rightarrow> False
      | c # cs \<Rightarrow> is_letter c \<and> list_all is_word_char cs \<and> length cs \<le> 49)"

subsection \<open>What a call of a field validator did\<close>

text \<open>
  \<open>verdict self r\<close>: the call that started on \<open>self\<close> returned a boolean, did not raise,
  appended at most one error and at most one warning, and the boolean is true exactly
  when no error was appended.
\<close>

definition verdict :: "validator \<Rightarrow> bool res \<Rightarrow> bool" where
  "verdict self r =
     (\<exists>ok self'. r = (Inr ok, self') \<and> (ok \<longleftrightarrow> errors self' = errors self)
        \<and> (\<exists>es. errors self' = errors self @ es \<and> length es \<le> 1)
        \<and> (\<exists>ws. warnings self' = warnings self @ ws \<and> length ws \<le> 1))"


text \<open>
  The two messages that name a value, written out here apart from the code: the
  missing-field error is \<^verbatim>\<open>Required field '<field>' is missing\<close>.
\<close>

definition missing_message :: "string \<Rightarrow> string" where
  "missing_message field =
     ''Required field '' @ [CHR 0x27] @ field @ [CHR 0x27] @ '' is missing''"





subsection \<open>A concrete host and concrete contexts\<close>

definition example_context :: pycontext where
  "example_context =
     [''project_name'' \<mapsto> ''MyApp'', ''package_name'' \<mapsto> ''com.example.myapp'',
      ''min_sdk'' \<mapsto> ''24'', ''target_sdk'' \<mapsto> ''34'', ''compile_sdk'' \<mapsto> ''34'',
      ''java_version'' \<mapsto> ''17'', ''version_name'' \<mapsto> ''1.0.0'']"


definition example_world :: "string world" where
  "example_world =
     \<lparr>int_max_str_digits = 4300,
      java_version_run = Completed 0,
      Path_home = ''/home/dev'',
      Path_of = (\<lambda>s. s),
      Path_join = (\<lambda>p s. p @ ''/'' @ s),
      Path_name = (\<lambda>p. ''dev''),
      Path_str = (\<lambda>p. p),
      files = {''/home/dev/Android/Sdk'', ''/work/MyApp/cookiecutter_context.json''},
      getcwd = ''/work/MyApp'',
      json_load = (\<lambda>p. Inr example_context),
      scripts_importable = True,
      generate_requirements_md = Inr ''# Requirements'',
      write_text = (\<lambda>p s. None)\<rparr>"




definition name_with_newline :: string where
  "name_with_newline = ''MyApp'' @ [newline]"





section \<open>Lemmas about the embedding\<close>


text \<open>
  The equation of \<open>str_nat\<close> is applied by hand: as a rewrite rule it would unfold
  without end on a number that is not a numeral.
\<close>

declare str_nat.simps [simp del]

subsection \<open>The accumulators\<close>

lemma and_then_Inr [simp]: "and_then (Inr x, self) f = f x self"
  by (simp add: and_then_def)

lemma and_then_Inl [simp]: "and_then (Inl e, self) f = (Inl e, self)"
  by (simp add: and_then_def)

lemma errors_errors_append [simp]: "errors (errors_append self m) = errors self @ [m]"
  by (simp add: errors_append_def)

lemma warnings_errors_append [simp]: "warnings (errors_append self m) = warnings self"
  by (simp add: errors_append_def)

lemma errors_warnings_append [simp]: "errors (warnings_append self m) = errors self"
  by (simp add: warnings_append_def)

lemma warnings_warnings_append [simp]: "warnings (warnings_append self m) = warnings self @ [m]"
  by (simp add: warnings_append_def)

lemma py_int_raises_ValueError_only: "py_int lim s = Inl e \<Longrightarrow> e = ValueError"
  by (auto simp: py_int_def split: prod.splits option.splits if_splits)

subsection \<open>Each field validator gives a verdict\<close>

lemma verdict_project_name: "verdict self (validate_project_name self name)"
  by (simp add: verdict_def validate_project_name_def)

lemma verdict_package_name: "verdict self (validate_package_name self package)"
  by (simp add: verdict_def validate_package_name_def)

lemma verdict_sdk_version: "verdict self (validate_sdk_version w self version lo hi)"
  by (auto simp: verdict_def validate_sdk_version_def split: sum.splits
      dest: py_int_raises_ValueError_only)

lemma verdict_java_version: "verdict self (validate_java_version w self version)"
  by (auto simp: verdict_def validate_java_version_def split: sum.splits
      dest: py_int_raises_ValueError_only)

lemma verdict_email: "verdict self (validate_email self email)"
  by (simp add: verdict_def validate_email_def)

lemma verdict_version_name: "verdict self (validate_version_name self version)"
  by (simp add: verdict_def validate_version_name_def)

lemma verdict_required_fields:
  "\<forall>entry \<in> set (required_fields w). \<forall>self v. verdict self (snd entry self v)"
  by (simp add: required_fields_def verdict_project_name verdict_package_name
      verdict_sdk_version verdict_java_version verdict_version_name)

subsection \<open>The loop over the required fields\<close>

lemma check_fields_grows:
  assumes "\<forall>entry \<in> set table. \<forall>self v. verdict self (snd entry self v)"
  shows "\<exists>self' es ws. check_fields table ctx self = (Inr (), self')
           \<and> errors self' = errors self @ es \<and> warnings self' = warnings self @ ws"
  using assms
proof (induction table arbitrary: self)
  case Nil
  show ?case by simp
next
  case (Cons entry table)
  obtain field r where entry: "entry = (field, r)" by (cases entry)
  have tail: "\<forall>entry \<in> set table. \<forall>self v. verdict self (snd entry self v)"
    using Cons.prems by simp
  have rest: "\<exists>self' es ws. check_fields table ctx s = (Inr (), self')
           \<and> errors self' = errors s @ es \<and> warnings self' = warnings s @ ws" for s
    using Cons.IH [OF tail] .
  show ?case
  proof (cases "ctx field")
    case None
    from rest [of "errors_append self (missing_message field)"]
    show ?thesis using None entry by (auto simp: missing_message_def apostrophe_def)
  next
    case (Some v)
    have "verdict self (r self v)"
      using Cons.prems entry by simp
    then obtain ok s1 es1 ws1 where s1: "r self v = (Inr ok, s1)"
      "errors s1 = errors self @ es1" "warnings s1 = warnings self @ ws1"
      unfolding verdict_def by blast
    from rest [of s1] s1 show ?thesis using Some entry by auto
  qed
qed




subsection \<open>The environment checks\<close>

lemma check_android_sdk_effect:
  "\<exists>self' ws. check_android_sdk w self = (Inr (), self') \<and> errors self' = errors self
      \<and> warnings self' = warnings self @ ws
      \<and> (ws = [] \<or> ws = [''Android SDK not found in common locations''])"
  by (simp add: check_android_sdk_def)

lemma check_android_studio_effect:
  "\<exists>self' ws. check_android_studio w self = (Inr (), self') \<and> errors self' = errors self
      \<and> warnings self' = warnings self @ ws
      \<and> (ws = [] \<or> ws = [''Android Studio not found in common locations''])"
  by (simp add: check_android_studio_def Let_def)

lemma validate_environment_after_java:
  assumes "check_java w self = (Inr (), s1)"
  shows "\<exists>self' ws. validate_environment w self = (Inr (errors self' = []), self')
      \<and> errors self' = errors s1 \<and> warnings self' = warnings s1 @ ws \<and> length ws \<le> 2"
proof -
  obtain s2 ws2 where s2: "check_android_sdk w s1 = (Inr (), s2)" "errors s2 = errors s1"
    "warnings s2 = warnings s1 @ ws2" "ws2 = [] \<or> ws2 = [''Android SDK not found in common locations'']"
    using check_android_sdk_effect [of w s1] by blast
  obtain s3 ws3 where s3: "check_android_studio w s2 = (Inr (), s3)" "errors s3 = errors s2"
    "warnings s3 = warnings s2 @ ws3" "ws3 = [] \<or> ws3 = [''Android Studio not found in common locations'']"
    using check_android_studio_effect [of w s2] by blast
  have "validate_environment w self = (Inr (errors s3 = []), s3)"
    by (simp add: validate_environment_def assms s2(1) s3(1))
  moreover have "warnings s3 = warnings s1 @ (ws2 @ ws3)" "length (ws2 @ ws3) \<le> 2"
    using s2 s3 by auto
  ultimately show ?thesis using s2(2) s3(2) by auto
qed

lemma validate_environment_raises:
  assumes "check_java w self = (Inl e, s1)"
  shows "validate_environment w self = (Inl e, s1)"
  by (simp add: validate_environment_def assms)

lemma check_java_cases:
  "(\<exists>es. check_java w self = (Inr (), self\<lparr>errors := errors self @ es\<rparr>) \<and> length es \<le> 1)
   \<or> (\<exists>e. check_java w self = (Inl e, self) \<and> java_version_run w = Raises e
          \<and> e \<noteq> TimeoutExpired \<and> e \<noteq> FileNotFoundError)"
proof (cases "java_version_run w")
  case (Completed rc)
  show ?thesis
  proof (cases "rc = 0")
    case True
    then have "check_java w self = (Inr (), self\<lparr>errors := errors self @ []\<rparr>)"
      by (simp add: check_java_def Completed)
    then show ?thesis by (intro disjI1 exI [of _ "[]"]) simp
  next
    case False
    then have "check_java w self = (Inr (), self\<lparr>errors := errors self @ [''Java is not properly installed'']\<rparr>)"
      by (simp add: check_java_def Completed errors_append_def)
    then show ?thesis by (intro disjI1 exI [of _ "[''Java is not properly installed'']"]) simp
  qed
next
  case (Raises e)
  show ?thesis
  proof (cases "e = TimeoutExpired \<or> e = FileNotFoundError")
    case True
    then have "check_java w self = (Inr (), self\<lparr>errors := errors self @ [''Java is not installed'']\<rparr>)"
      by (auto simp: check_java_def Raises errors_append_def)
    then show ?thesis by (intro disjI1 exI [of _ "[''Java is not installed'']"]) simp
  next
    case False
    then show ?thesis by (simp add: check_java_def Raises)
  qed
qed

subsection \<open>\<^verbatim>\<open>validate_all\<close> step by step\<close>

lemma check_author_email_effect:
  "\<exists>self' es ws. check_author_email ctx self = (Inr (), self')
      \<and> errors self' = errors self @ es \<and> warnings self' = warnings self @ ws"
proof (cases "ctx ''author_email''")
  case None
  then show ?thesis by (simp add: check_author_email_def)
next
  case (Some v)
  obtain ok s1 es ws where "validate_email self v = (Inr ok, s1)"
    "errors s1 = errors self @ es" "warnings s1 = warnings self @ ws"
    using verdict_email [of self v] unfolding verdict_def by blast
  then show ?thesis using Some by (simp add: check_author_email_def)
qed

lemma validate_all_cases:
  "\<exists>s1 s2 es1 es2. check_fields (required_fields w) ctx self = (Inr (), s1)
      \<and> check_author_email ctx s1 = (Inr (), s2)
      \<and> errors s1 = errors self @ es1 \<and> errors s2 = errors s1 @ es2
      \<and> ((\<exists>s3 es3. validate_all w self ctx = (Inr (errors s3 = [], errors s3, warnings s3), s3)
              \<and> check_java w s2 = (Inr (), s2\<lparr>errors := errors s2 @ es3\<rparr>)
              \<and> errors s3 = errors s2 @ es3 \<and> length es3 \<le> 1)
          \<or> (\<exists>e. validate_all w self ctx = (Inl e, s2) \<and> java_version_run w = Raises e
                \<and> e \<noteq> TimeoutExpired \<and> e \<noteq> FileNotFoundError))"
proof -
  obtain s1 es1 where s1: "check_fields (required_fields w) ctx self = (Inr (), s1)"
    "errors s1 = errors self @ es1"
    using check_fields_grows [OF verdict_required_fields, of w ctx self] by blast
  obtain s2 es2 where s2: "check_author_email ctx s1 = (Inr (), s2)"
    "errors s2 = errors s1 @ es2"
    using check_author_email_effect [of ctx s1] by blast
  have all: "validate_all w self ctx =
      and_then (validate_environment w s2)
        (\<lambda>_ self. (Inr (length (errors self) = 0, errors self, warnings self), self))"
    by (simp add: validate_all_def s1(1) s2(1))
  from check_java_cases [of w s2] show ?thesis
  proof
    assume "\<exists>es. check_java w s2 = (Inr (), s2\<lparr>errors := errors s2 @ es\<rparr>) \<and> length es \<le> 1"
    then obtain es3 where java: "check_java w s2 = (Inr (), s2\<lparr>errors := errors s2 @ es3\<rparr>)"
      "length es3 \<le> 1" by blast
    obtain s3 where s3: "validate_environment w s2 = (Inr (errors s3 = []), s3)"
      "errors s3 = errors (s2\<lparr>errors := errors s2 @ es3\<rparr>)"
      using validate_environment_after_java [OF java(1)] by blast
    have "validate_all w self ctx = (Inr (errors s3 = [], errors s3, warnings s3), s3)"
      by (simp add: all s3(1))
    with s1 s2 s3 java show ?thesis by auto
  next
    assume "\<exists>e. check_java w s2 = (Inl e, s2) \<and> java_version_run w = Raises e
          \<and> e \<noteq> TimeoutExpired \<and> e \<noteq> FileNotFoundError"
    then obtain e where e: "check_java w s2 = (Inl e, s2)" "java_version_run w = Raises e"
      "e \<noteq> TimeoutExpired" "e \<noteq> FileNotFoundError" by blast
    have "validate_all w self ctx = (Inl e, s2)"
      by (simp add: all validate_environment_raises [OF e(1)])
    with s1 s2 e show ?thesis by auto
  qed
qed

lemma validate_template_inputs_fresh:
  "validate_template_inputs w ctx st =
     (fst (validate_all w AndroidTemplateValidator ctx),
      st @ [snd (validate_all w AndroidTemplateValidator ctx)])"
  by (simp add: validate_template_inputs_def Let_def split: prod.splits)

subsection \<open>Further facts\<close>

lemma warnings_append_changes: "warnings_append self m \<noteq> self"
proof
  assume "warnings_append self m = self"
  then have "warnings (warnings_append self m) = warnings self" by simp
  then show False by simp
qed

lemma check_java_by_outcome:
  "case java_version_run w of
     Completed rc \<Rightarrow>
       check_java w self
         = (Inr (), if rc = 0 then self else errors_append self ''Java is not properly installed'')
   | Raises e \<Rightarrow>
       if e = TimeoutExpired \<or> e = FileNotFoundError
       then check_java w self = (Inr (), errors_append self ''Java is not installed'')
       else check_java w self = (Inl e, self)"
  by (simp add: check_java_def split: completed.splits)

lemma collect_missing_keeps: "collect_missing w project_dir fs missing = missing"
  by (induction fs arbitrary: missing) (simp_all add: truth_of_path_def)

lemma verify_structure_passes:
  "verify_structure w fs out = (None, fs, out @ [Structure_verified])"
  by (simp add: verify_structure_def collect_missing_keeps)

subsection \<open>The steps of \<^verbatim>\<open>main\<close>\<close>

lemma next_step_None [simp]: "next_step (None, fs, out) step = step fs out"
  by (simp add: next_step_def)

lemma next_step_Some [simp]: "next_step (Some e, fs, out) step = (Some e, fs, out)"
  by (simp add: next_step_def)

lemma main_after_load:
  "main validate w =
     (case load_and_validate validate w (files w) [] of
        (Some e, fs, out) \<Rightarrow> \<lparr>ended = e, files_left = fs, printed = out\<rparr>
      | (None, fs, out) \<Rightarrow>
          (case write_requirements w fs (out @ [Structure_verified]) of
             (Some e, fs', out') \<Rightarrow> \<lparr>ended = e, files_left = fs', printed = out'\<rparr>
           | (None, fs', out') \<Rightarrow>
               (case clean_up w fs' out' of
                  (r, fs'', out'') \<Rightarrow>
                    \<lparr>ended = Returned, files_left = fs'', printed = out'' @ [Generation_complete]\<rparr>)))"
proof -
  have clean: "\<exists>fs'' out''. clean_up w fs' out' = (None, fs'', out'')" for fs' out'
    by (simp add: clean_up_def Let_def)
  show ?thesis
  proof (cases "load_and_validate validate w (files w) []")
    case (fields r fs out)
    show ?thesis
    proof (cases r)
      case (Some e)
      then show ?thesis by (simp add: main_def fields)
    next
      case None
      show ?thesis
      proof (cases "write_requirements w fs (out @ [Structure_verified])")
        case inner: (fields r' fs' out')
        show ?thesis
        proof (cases r')
          case (Some e)
          then show ?thesis
            by (simp add: main_def fields None verify_structure_passes inner)
        next
          case None': None
          obtain fs'' out'' where "clean_up w fs' out' = (None, fs'', out'')"
            using clean by blast
          then show ?thesis
            by (simp add: main_def fields None verify_structure_passes inner None')
        qed
      qed
    qed
  qed
qed

lemma load_and_validate_printed:
  "load_and_validate validate w fs [] = (r, fs', out) \<Longrightarrow>
     fs' = fs \<and> (\<forall>m. Missing_required_files m \<notin> set out)
     \<and> (Validation_failed \<in> set out \<longleftrightarrow> r = Some (SystemExit 1))
     \<and> (\<forall>n. r = Some (SystemExit n) \<longrightarrow> n = 1)"
  by (auto simp: load_and_validate_def split: if_splits sum.splits prod.splits)

lemma write_requirements_printed:
  "write_requirements w fs out = (r, fs', out') \<Longrightarrow>
     (\<forall>n. r \<noteq> Some (SystemExit n))
     \<and> (\<exists>extra. out' = out @ extra \<and> (\<forall>m. Missing_required_files m \<notin> set extra)
            \<and> Validation_failed \<notin> set extra)"
  by (auto simp: write_requirements_def split: if_splits option.splits)

lemma clean_up_printed:
  "clean_up w fs out = (r, fs', out') \<Longrightarrow>
     r = None \<and> (\<exists>extra. out' = out @ extra \<and> (\<forall>m. Missing_required_files m \<notin> set extra)
            \<and> Validation_failed \<notin> set extra)"
  by (auto simp: clean_up_def Let_def split: if_splits)

subsection \<open>Runs on the concrete host\<close>








subsection \<open>The two ways out of the validation step of \<^verbatim>\<open>main\<close>\<close>





subsection \<open>The derivative matcher decides the language\<close>

lemma nullable_lang: "nullable r \<longleftrightarrow> [] \<in> lang r"
  by (induction r) (auto simp: conc_def intro: star_nil)

lemma star_Cons_split:
  "c # w \<in> star A \<longleftrightarrow> (\<exists>u v. w = u @ v \<and> c # u \<in> A \<and> v \<in> star A)"
proof
  assume "c # w \<in> star A"
  then show "\<exists>u v. w = u @ v \<and> c # u \<in> A \<and> v \<in> star A"
  proof (induction "c # w" arbitrary: w rule: star.induct)
    case (star_app u v)
    show ?case
    proof (cases u)
      case Nil
      with star_app show ?thesis by simp
    next
      case (Cons a u')
      with star_app.hyps(1,2,4) show ?thesis by auto
    qed
  qed
next
  assume "\<exists>u v. w = u @ v \<and> c # u \<in> A \<and> v \<in> star A"
  then obtain u v where "w = u @ v" "c # u \<in> A" "v \<in> star A" by blast
  then have "(c # u) @ v \<in> star A" by (intro star_app)
  with \<open>w = u @ v\<close> show "c # w \<in> star A" by simp
qed

lemma conc_Cons_split:
  "c # w \<in> conc A B \<longleftrightarrow>
     (\<exists>u v. w = u @ v \<and> c # u \<in> A \<and> v \<in> B) \<or> ([] \<in> A \<and> c # w \<in> B)"
  by (auto simp: conc_def Cons_eq_append_conv)

lemma lang_deriv: "w \<in> lang (deriv c r) \<longleftrightarrow> c # w \<in> lang r"
proof (induction r arbitrary: w)
  case (Seq r s)
  then show ?case
    by (auto simp: conc_Cons_split nullable_lang) (auto simp: conc_def)
next
  case (Star r)
  then show ?case
    by (auto simp: star_Cons_split) (auto simp: conc_def)
qed auto

lemma fullmatch_lang: "fullmatch r s \<longleftrightarrow> s \<in> lang r"
  unfolding fullmatch_def
  by (induction s arbitrary: r) (simp_all add: nullable_lang lang_deriv)

lemma star_Cls: "s \<in> star {[c] | c. p c} \<longleftrightarrow> (\<forall>c \<in> set s. p c)"
proof
  assume "s \<in> star {[c] | c. p c}"
  then show "\<forall>c \<in> set s. p c"
    by (induction rule: star.induct) auto
next
  assume "\<forall>c \<in> set s. p c"
  then show "s \<in> star {[c] | c. p c}"
  proof (induction s)
    case Nil
    show ?case by (rule star_nil)
  next
    case (Cons a s)
    then have "[a] @ s \<in> star {[c] | c. p c}"
      by (intro star_app) auto
    then show ?case by simp
  qed
qed

lemma conc_Cls: "s \<in> conc {[c] | c. p c} B \<longleftrightarrow> (\<exists>c cs. s = c # cs \<and> p c \<and> cs \<in> B)"
proof
  assume "s \<in> conc {[c] | c. p c} B"
  then show "\<exists>c cs. s = c # cs \<and> p c \<and> cs \<in> B"
    by (auto simp: conc_def)
next
  assume "\<exists>c cs. s = c # cs \<and> p c \<and> cs \<in> B"
  then obtain c cs where "s = [c] @ cs" "p c" "cs \<in> B" by auto
  then show "s \<in> conc {[c] | c. p c} B"
    unfolding conc_def by blast
qed

lemma project_name_lang:
  "fullmatch project_name_pattern s \<longleftrightarrow>
     (\<exists>c cs. s = c # cs \<and> is_letter c \<and> (\<forall>x \<in> set cs. is_word_char x))"
  by (simp add: fullmatch_lang project_name_pattern_def conc_Cls star_Cls is_letter_def
      is_word_char_def)

subsection \<open>Names that lower-case to a reserved word\<close>






subsection \<open>A rule that accepts a value accepts it on every validator\<close>









subsection \<open>A context that is valid apart from its project name\<close>







subsection \<open>\<^verbatim>\<open>int(str(i))\<close> gives \<open>i\<close> back\<close>

lemma digit_char_is_digit: "is_digit (digit_char d)"
proof -
  have "d mod 10 < 10" by simp
  then have "d mod 10 \<in> {0, 1, 2, 3, 4, 5, 6, 7, 8, 9}" by simp arith
  then show ?thesis
    by (auto simp: digit_char_def is_digit_def in_range_def code_point_def)
qed

lemma digit_value_digit_char: "digit_value (digit_char d) = d mod 10"
proof -
  have "d mod 10 < 10" by simp
  then have "d mod 10 \<in> {0, 1, 2, 3, 4, 5, 6, 7, 8, 9}" by simp arith
  then show ?thesis
    by (auto simp: digit_char_def digit_value_def code_point_def)
qed

lemma is_digit_not_sign:
  "is_digit c \<Longrightarrow> c \<noteq> CHR ''-'' \<and> c \<noteq> CHR ''+'' \<and> c \<noteq> CHR ''_'' \<and> \<not> is_int_space c"
  by (auto simp: is_digit_def in_range_def code_point_def is_int_space_def)

lemma str_nat_digits: "str_nat n \<noteq> [] \<and> (\<forall>c \<in> set (str_nat n). is_digit c)"
proof (induction n rule: str_nat.induct)
  case (1 n)
  show ?case
  proof (cases "n < 10")
    case True
    then show ?thesis by (subst (1 2) str_nat.simps) (simp add: digit_char_is_digit)
  next
    case False
    with 1 show ?thesis
      by (subst (1 2) str_nat.simps) (simp add: digit_char_is_digit)
  qed
qed

lemma decimal_value_snoc:
  "decimal_value (ds @ [c]) = 10 * decimal_value ds + digit_value c"
  by (simp add: decimal_value_def)

lemma decimal_value_str_nat: "decimal_value (str_nat n) = n"
proof (induction n rule: str_nat.induct)
  case (1 n)
  show ?case
  proof (cases "n < 10")
    case True
    then show ?thesis
      by (subst str_nat.simps) (simp add: decimal_value_def digit_value_digit_char)
  next
    case False
    with 1 have "decimal_value (str_nat (n div 10)) = n div 10" by simp
    with False show ?thesis
      by (subst str_nat.simps) (simp add: decimal_value_snoc digit_value_digit_char)
  qed
qed

lemma group_digits_all_digits:
  "ds \<noteq> [] \<Longrightarrow> \<forall>c \<in> set ds. is_digit c \<Longrightarrow> group_digits ds = Some ds"
proof (induction ds rule: group_digits.induct)
  case 1
  then show ?case by simp
next
  case (2 c)
  then show ?case by simp
next
  case (3 c d cs)
  then have "d \<noteq> CHR ''_''" using is_digit_not_sign [of d] by simp
  with 3 show ?case by simp
qed

lemma strip_int_unchanged:
  assumes "s \<noteq> []" and "\<not> is_int_space (hd s)" and "\<not> is_int_space (last s)"
  shows "strip_int s = s"
proof -
  have front: "dropWhile is_int_space s = s"
    using assms(1,2) by (cases s) simp_all
  have "rev s \<noteq> []" and "\<not> is_int_space (hd (rev s))"
    using assms(1,3) by (simp_all add: hd_rev)
  then have "dropWhile is_int_space (rev s) = rev s"
    by (cases "rev s") simp_all
  with front show ?thesis by (simp add: strip_int_def)
qed

lemma py_int_str_nat:
  "py_int lim (str_nat n)
     = (if 0 < lim \<and> lim < length (str_nat n) then Inl ValueError else Inr (int n))"
proof -
  from str_nat_digits [of n] obtain c cs where cs: "str_nat n = c # cs" 
    and digits: "\<forall>x \<in> set (str_nat n). is_digit x" 
    by (cases "str_nat n") auto
  have "str_nat n \<noteq> []" using cs by simp
  then have "hd (str_nat n) \<in> set (str_nat n)" "last (str_nat n) \<in> set (str_nat n)"
    by (rule hd_in_set, rule last_in_set)
  with digits have "is_digit (hd (str_nat n))" "is_digit (last (str_nat n))"
    by blast+
  then have strip: "strip_int (str_nat n) = str_nat n"
    using is_digit_not_sign cs by (intro strip_int_unchanged) auto
  have "is_digit c" using digits cs by simp
  then have sign: "split_sign (str_nat n) = (False, str_nat n)"
    using is_digit_not_sign [of c] by (simp add: split_sign_def cs)
  have group: "group_digits (str_nat n) = Some (str_nat n)"
    using digits cs by (intro group_digits_all_digits) auto
  show ?thesis
    by (simp add: py_int_def strip sign group decimal_value_str_nat)
qed

lemma py_int_str_int:
  "py_int lim (str_int i)
     = (if 0 < lim \<and> lim < length (str_nat (nat \<bar>i\<bar>)) then Inl ValueError else Inr i)"
proof (cases "i < 0")
  case False
  then show ?thesis by (simp add: str_int_def py_int_str_nat)
next
  case True
  let ?ds = "str_nat (nat (- i))"
  from str_nat_digits [of "nat (- i)"] obtain c cs where cs: "?ds = c # cs"
    and digits: "\<forall>x \<in> set ?ds. is_digit x"
    by (cases ?ds) auto
  have "?ds \<noteq> []" using cs by simp
  then have "last ?ds \<in> set ?ds" by (rule last_in_set)
  with digits have "is_digit (last ?ds)" by blast
  then have "\<not> is_int_space (last ?ds)"
    using is_digit_not_sign by blast
  then have "\<not> is_int_space (last (CHR ''-'' # ?ds))"
    using \<open>?ds \<noteq> []\<close> by simp
  moreover have "\<not> is_int_space (hd (CHR ''-'' # ?ds))"
    by (simp add: is_int_space_def code_point_def)
  ultimately have strip: "strip_int (CHR ''-'' # ?ds) = CHR ''-'' # ?ds"
    by (intro strip_int_unchanged) auto
  have sign: "split_sign (CHR ''-'' # ?ds) = (True, ?ds)"
    by (simp add: split_sign_def)
  have group: "group_digits ?ds = Some ?ds"
    using digits cs by (intro group_digits_all_digits) auto
  from True have abs: "nat \<bar>i\<bar> = nat (- i)" by simp
  show ?thesis
    using True by (simp add: str_int_def py_int_def strip sign group decimal_value_str_nat abs)
qed

lemma length_str_nat_two_digits:
  assumes "10 \<le> n" and "n < 100"
  shows "length (str_nat n) = 2"
proof -
  have "n div 10 < 10" using assms(2) by simp
  then have "str_nat (n div 10) = [digit_char (n div 10)]"
    by (subst str_nat.simps) simp
  with assms(1) show ?thesis
    by (subst str_nat.simps) simp
qed

subsection \<open>What \<^verbatim>\<open>int\<close> accepts is made of digits, sign, underscore and white space\<close>

lemma group_digits_chars:
  "group_digits body = Some ds \<Longrightarrow> \<forall>c \<in> set body. is_digit c \<or> c = CHR ''_''"
  by (induction body arbitrary: ds rule: group_digits.induct) (auto split: if_splits)

lemma set_dropWhile_rest: "set xs \<subseteq> set (dropWhile P xs) \<union> {x. P x}"
proof -
  have "set xs = set (takeWhile P xs) \<union> set (dropWhile P xs)"
    by (metis set_append takeWhile_dropWhile_id)
  moreover have "set (takeWhile P xs) \<subseteq> {x. P x}"
    by (auto dest: set_takeWhileD)
  ultimately show ?thesis by auto
qed

lemma set_strip_int: "set s \<subseteq> set (strip_int s) \<union> {c. is_int_space c}"
proof -
  let ?t = "dropWhile is_int_space s"
  have "set s \<subseteq> set ?t \<union> {c. is_int_space c}"
    by (rule set_dropWhile_rest)
  moreover have "set (rev ?t) \<subseteq> set (dropWhile is_int_space (rev ?t)) \<union> {c. is_int_space c}"
    by (rule set_dropWhile_rest)
  ultimately show ?thesis by (auto simp: strip_int_def)
qed

lemma set_split_sign:
  "split_sign t = (negative, body) \<Longrightarrow> set t \<subseteq> set body \<union> {CHR ''-'', CHR ''+''}"
  by (auto simp: split_sign_def split: list.splits if_splits)

lemma py_int_chars:
  assumes "py_int lim s = Inr n"
  shows "\<forall>c \<in> set s. is_digit c \<or> is_int_space c \<or> c \<in> set ''+-_''"
proof -
  obtain negative body where sign: "split_sign (strip_int s) = (negative, body)"
    by (cases "split_sign (strip_int s)")
  with assms obtain ds where "group_digits body = Some ds"
    by (auto simp: py_int_def split: option.splits)
  then have "\<forall>c \<in> set body. is_digit c \<or> c = CHR ''_''"
    by (rule group_digits_chars)
  with set_split_sign [OF sign] set_strip_int [of s] show ?thesis
    by auto
qed

subsection \<open>Which project names are accepted\<close>

lemma spec_project_name_iff:
  "spec_project_name s \<longleftrightarrow> fullmatch project_name_pattern s \<and> length s \<le> 50"
  by (cases s) (auto simp: spec_project_name_def project_name_lang list_all_iff)

lemma newline_is_no_word_char: "\<not> is_word_char newline \<and> \<not> is_letter newline"
  by (simp add: is_word_char_def is_letter_def upper_AZ_def lower_az_def is_digit_def
      in_range_def code_point_def newline_def)

lemma project_name_accepted_iff:
  "fst (validate_project_name self name) = Inr True \<longleftrightarrow>
     spec_project_name name
     \<or> (\<exists>base. name = base @ [newline] \<and> spec_project_name base \<and> length base \<le> 49)"
proof -
  have accepted: "fst (validate_project_name self name) = Inr True \<longleftrightarrow>
      name \<noteq> [] \<and> re_match project_name_pattern name \<and> length name \<le> 50"
    by (simp add: validate_project_name_def)
  have tail: "name \<noteq> [] \<and> last name = newline \<and> fullmatch project_name_pattern (butlast name)
        \<and> length name \<le> 50
      \<longleftrightarrow> (\<exists>base. name = base @ [newline] \<and> spec_project_name base \<and> length base \<le> 49)"
  proof
    assume a: "name \<noteq> [] \<and> last name = newline
        \<and> fullmatch project_name_pattern (butlast name) \<and> length name \<le> 50"
    then have "name = butlast name @ [newline]"
      by (metis append_butlast_last_id)
    moreover from a have "length (butlast name) \<le> 49" by (cases name) auto
    ultimately show "\<exists>base. name = base @ [newline] \<and> spec_project_name base \<and> length base \<le> 49"
      using a by (auto simp: spec_project_name_iff)
  next
    assume "\<exists>base. name = base @ [newline] \<and> spec_project_name base \<and> length base \<le> 49"
    then show "name \<noteq> [] \<and> last name = newline
        \<and> fullmatch project_name_pattern (butlast name) \<and> length name \<le> 50"
      by (auto simp: spec_project_name_iff)
  qed
  have nonempty: "fullmatch project_name_pattern name \<Longrightarrow> name \<noteq> []"
    by (auto simp: project_name_lang)
  show ?thesis
    unfolding accepted re_match_def
    using tail nonempty by (auto simp: spec_project_name_iff)
qed

lemma lower_name_with_newline: "lower name_with_newline = ''myapp'' @ [newline]"
  by code_simp

subsection \<open>Further runs of the hook\<close>







section \<open>The claims\<close>

text \<open>
  C1. \<^verbatim>\<open>validate_all\<close>, started on a validator in any state, and
  \<^verbatim>\<open>validate_template_inputs\<close> return a triple whose first component is true exactly
  when the returned error list is empty; the warnings play no part in it. The call
  returns such a triple in every case but one: when running \<^verbatim>\<open>java -version\<close> raised
  an exception other than the two that \<^verbatim>\<open>validate_environment\<close> catches, that
  exception leaves the call.
\<close>

theorem success_iff_error_list_empty:
  "(case validate_all w self ctx of
      (Inr (ok, es, ws), self') \<Rightarrow> (ok \<longleftrightarrow> es = []) \<and> es = errors self' \<and> ws = warnings self'
    | (Inl e, self') \<Rightarrow>
        java_version_run w = Raises e \<and> e \<noteq> TimeoutExpired \<and> e \<noteq> FileNotFoundError)
   \<and> (case fst (validate_template_inputs w ctx st) of
         Inr (ok, es, ws) \<Rightarrow> (ok \<longleftrightarrow> es = [])
       | Inl e \<Rightarrow>
           java_version_run w = Raises e \<and> e \<noteq> TimeoutExpired \<and> e \<noteq> FileNotFoundError)"
proof -
  have one: "case validate_all w s ctx of
      (Inr (ok, es, ws), self') \<Rightarrow> (ok \<longleftrightarrow> es = []) \<and> es = errors self' \<and> ws = warnings self'
    | (Inl e, self') \<Rightarrow>
        java_version_run w = Raises e \<and> e \<noteq> TimeoutExpired \<and> e \<noteq> FileNotFoundError" for s
    using validate_all_cases [of w ctx s] by auto
  have two: "case fst (validate_template_inputs w ctx st) of
         Inr (ok, es, ws) \<Rightarrow> (ok \<longleftrightarrow> es = [])
       | Inl e \<Rightarrow>
           java_version_run w = Raises e \<and> e \<noteq> TimeoutExpired \<and> e \<noteq> FileNotFoundError"
    using validate_all_cases [of w ctx AndroidTemplateValidator]
    by (auto simp: validate_template_inputs_fresh)
  from one [of self] two show ?thesis by simp
qed

text \<open>
  C9. A call of \<^verbatim>\<open>validate_template_inputs\<close> returns what \<^verbatim>\<open>validate_all\<close> returns on
  a validator whose two lists are empty, whatever objects the store holds; it adds one
  object to the store and changes no other. So a second call on the same context and the
  same host, made on the store the first call left behind, returns the same triple.
\<close>

theorem validate_template_inputs_repeatable:
  "fst (validate_template_inputs w ctx (snd (validate_template_inputs w ctx st)))
     = fst (validate_template_inputs w ctx st)
   \<and> fst (validate_template_inputs w ctx st)
     = fst (validate_all w \<lparr>errors = [], warnings = []\<rparr> ctx)
   \<and> snd (validate_template_inputs w ctx st)
     = st @ [snd (validate_all w \<lparr>errors = [], warnings = []\<rparr> ctx)]"
  by (simp add: validate_template_inputs_fresh AndroidTemplateValidator_def)

text \<open>
  C10. Each of the six field validators returns a boolean without raising, appends at
  most one error and at most one warning, and returns true exactly when it appended no
  error (\<open>verdict\<close>). A warning leaves the boolean alone: \<^verbatim>\<open>validate_version_name\<close>
  returns true with its warning exactly on the non-empty strings that do not match the
  semantic-versioning pattern, and \<^verbatim>\<open>validate_email\<close> returns true with its warning
  on the empty string.
\<close>

theorem field_validators_true_iff_no_error:
  "verdict self (validate_project_name self name)
   \<and> verdict self (validate_package_name self package)
   \<and> verdict self (validate_sdk_version w self version min_version max_version)
   \<and> verdict self (validate_java_version w self version)
   \<and> verdict self (validate_email self email)
   \<and> verdict self (validate_version_name self version)
   \<and> (validate_version_name self version
         = (Inr True, warnings_append self
              ''Version name should follow semantic versioning (e.g., 1.0.0)'')
       \<longleftrightarrow> version \<noteq> [] \<and> \<not> re_match semver_pattern version)
   \<and> validate_email self []
         = (Inr True, warnings_append self ''Email address is empty (optional but recommended)'')"
proof -
  have semver: "validate_version_name self version
         = (Inr True, warnings_append self
              ''Version name should follow semantic versioning (e.g., 1.0.0)'')
       \<longleftrightarrow> version \<noteq> [] \<and> \<not> re_match semver_pattern version"
    using warnings_append_changes [of self] warnings_append_changes [of self, THEN not_sym]
    by (auto simp: validate_version_name_def)
  have email: "validate_email self []
         = (Inr True, warnings_append self ''Email address is empty (optional but recommended)'')"
    by (simp add: validate_email_def)
  show ?thesis
    using semver email
    by (simp only: verdict_project_name verdict_package_name verdict_sdk_version
        verdict_java_version verdict_email verdict_version_name simp_thms)
qed

text \<open>
  C8. In \<^verbatim>\<open>validate_environment\<close> the two blocks that look for the Android SDK and for
  Android Studio leave the error list alone and append at most one warning each. The
  Java block turns a non-zero return code, \<^verbatim>\<open>TimeoutExpired\<close> and
  \<^verbatim>\<open>FileNotFoundError\<close> into one appended error and returns; any other exception of
  the \<^verbatim>\<open>subprocess.run\<close> call is not caught and leaves the method. When the Java block
  returns, the method returns, its error list is the one the Java block left, and at most
  two warnings were appended.
\<close>

theorem only_java_check_adds_errors:
  "(\<exists>self1 ws. check_android_sdk w self = (Inr (), self1) \<and> errors self1 = errors self
       \<and> warnings self1 = warnings self @ ws \<and> length ws \<le> 1)
   \<and> (\<exists>self1 ws. check_android_studio w self = (Inr (), self1) \<and> errors self1 = errors self
       \<and> warnings self1 = warnings self @ ws \<and> length ws \<le> 1)
   \<and> (case java_version_run w of
        Completed rc \<Rightarrow>
          check_java w self
            = (Inr (), if rc = 0 then self
                       else errors_append self ''Java is not properly installed'')
      | Raises e \<Rightarrow>
          if e = TimeoutExpired \<or> e = FileNotFoundError
          then check_java w self = (Inr (), errors_append self ''Java is not installed'')
          else check_java w self = (Inl e, self))
   \<and> (case check_java w self of
        (Inr u, self1) \<Rightarrow>
          (\<exists>self2 ws. validate_environment w self = (Inr (errors self2 = []), self2)
             \<and> errors self2 = errors self1 \<and> warnings self2 = warnings self @ ws
             \<and> length ws \<le> 2)
      | (Inl e, self1) \<Rightarrow> validate_environment w self = (Inl e, self))"
proof -
  have sdk: "\<exists>self1 ws. check_android_sdk w self = (Inr (), self1) \<and> errors self1 = errors self
       \<and> warnings self1 = warnings self @ ws \<and> length ws \<le> 1"
    using check_android_sdk_effect [of w self] by auto
  have studio: "\<exists>self1 ws. check_android_studio w self = (Inr (), self1)
       \<and> errors self1 = errors self \<and> warnings self1 = warnings self @ ws \<and> length ws \<le> 1"
    using check_android_studio_effect [of w self] by auto
  have env: "case check_java w self of
        (Inr u, self1) \<Rightarrow>
          (\<exists>self2 ws. validate_environment w self = (Inr (errors self2 = []), self2)
             \<and> errors self2 = errors self1 \<and> warnings self2 = warnings self @ ws
             \<and> length ws \<le> 2)
      | (Inl e, self1) \<Rightarrow> validate_environment w self = (Inl e, self)"
  proof (cases "check_java w self")
    case (Pair r self1)
    show ?thesis
    proof (cases r)
      case (Inl e)
      have "self1 = self"
        using check_java_cases [of w self] Pair Inl by auto
      then show ?thesis
        using Pair Inl validate_environment_raises [of w self e self1] by simp
    next
      case (Inr u)
      have same: "warnings self1 = warnings self"
        using check_java_cases [of w self] Pair Inr by auto
      from validate_environment_after_java [of w self self1] Pair Inr
      show ?thesis by (simp add: same)
    qed
  qed
  from sdk studio check_java_by_outcome [of w self] env show ?thesis by blast
qed

text \<open>
  C6. The loop of the structure check never adds a path to \<^verbatim>\<open>missing_files\<close>: the
  list is empty after the loop whatever the file system holds, because the loop tests the
  truth value of a \<^verbatim>\<open>Path\<close> object and never asks whether the path exists. So the
  step always prints that the structure is verified and goes on, no run of \<^verbatim>\<open>main\<close>
  prints the list of missing files, and \<^verbatim>\<open>main\<close> leaves through \<^verbatim>\<open>sys.exit\<close> only
  where validation failed.
\<close>

theorem structure_check_never_reports_missing:
  "collect_missing w project_dir required_files [] = []
   \<and> verify_structure w fs out = (None, fs, out @ [Structure_verified])
   \<and> (\<forall>m. Missing_required_files m \<notin> set (printed (main validate w)))
   \<and> ((\<exists>n. ended (main validate w) = SystemExit n)
        \<longleftrightarrow> Validation_failed \<in> set (printed (main validate w)))"
proof -
  obtain r fs1 out1 where load: "load_and_validate validate w (files w) [] = (r, fs1, out1)"
    by (cases "load_and_validate validate w (files w) []")
  note L = load_and_validate_printed [OF load]
  obtain r2 fs2 out2 where wr: "write_requirements w fs1 (out1 @ [Structure_verified]) = (r2, fs2, out2)"
    by (cases "write_requirements w fs1 (out1 @ [Structure_verified])")
  note W = write_requirements_printed [OF wr]
  obtain r3 fs3 out3 where cl: "clean_up w fs2 out2 = (r3, fs3, out3)"
    by (cases "clean_up w fs2 out2")
  note C = clean_up_printed [OF cl]
  have run: "main validate w =
      (case r of
         Some e \<Rightarrow> \<lparr>ended = e, files_left = fs1, printed = out1\<rparr>
       | None \<Rightarrow>
           (case r2 of
              Some e \<Rightarrow> \<lparr>ended = e, files_left = fs2, printed = out2\<rparr>
            | None \<Rightarrow>
                \<lparr>ended = Returned, files_left = fs3, printed = out3 @ [Generation_complete]\<rparr>))"
    by (simp add: main_after_load load wr cl split: option.splits)
  have no_missing: "\<forall>m. Missing_required_files m \<notin> set (printed (main validate w))"
    unfolding run using L W C by (cases r; cases r2) auto
  have exits: "(\<exists>n. ended (main validate w) = SystemExit n)
        \<longleftrightarrow> Validation_failed \<in> set (printed (main validate w))"
    unfolding run using L W C by (cases r; cases r2) auto
  show ?thesis
    using no_missing exits by (simp add: collect_missing_keeps verify_structure_passes)
qed










text \<open>
  C3. \<^verbatim>\<open>validate_sdk_version\<close> with the bounds 21 and 35 never raises: it returns a
  boolean. The boolean is true exactly when \<^verbatim>\<open>int\<close> reads the string as an integer
  between 21 and 35; then nothing is appended. In every other case, an integer outside
  the range or a string that \<^verbatim>\<open>int\<close> refuses, it is false and one error message is
  appended. A string with a character that is no digit, sign, underscore or white space
  is among the refused. For the decimal numeral of an integer \<open>i\<close> this reads: accepted
  exactly when \<open>21 \<le> i \<le> 35\<close> (the digit limit of \<^verbatim>\<open>int\<close>, which Python keeps at 0 or
  at 640 and more, plays no part for two digits).
\<close>

theorem sdk_version_accepted_iff_in_range:
  "(\<exists>ok self'. validate_sdk_version w self version 21 35 = (Inr ok, self')
      \<and> (ok \<longleftrightarrow> (\<exists>n. py_int (int_max_str_digits w) version = Inr n \<and> 21 \<le> n \<and> n \<le> 35))
      \<and> (if ok then self' = self else (\<exists>msg. self' = errors_append self msg))
      \<and> ((\<exists>c \<in> set version. \<not> is_digit c \<and> \<not> is_int_space c \<and> c \<notin> set ''+-_'') \<longrightarrow> \<not> ok))
   \<and> (int_max_str_digits w = 0 \<or> 2 \<le> int_max_str_digits w \<longrightarrow>
        fst (validate_sdk_version w self (str_int i) 21 35) = Inr (21 \<le> i \<and> i \<le> 35))"
proof -
  let ?lim = "int_max_str_digits w"
  have general: "\<exists>ok self'. validate_sdk_version w self version 21 35 = (Inr ok, self')
      \<and> (ok \<longleftrightarrow> (\<exists>n. py_int ?lim version = Inr n \<and> 21 \<le> n \<and> n \<le> 35))
      \<and> (if ok then self' = self else (\<exists>msg. self' = errors_append self msg))
      \<and> ((\<exists>c \<in> set version. \<not> is_digit c \<and> \<not> is_int_space c \<and> c \<notin> set ''+-_'') \<longrightarrow> \<not> ok)"
  proof (cases "py_int ?lim version")
    case (Inl e)
    then have "e = ValueError" by (rule py_int_raises_ValueError_only)
    with Inl show ?thesis
      by (simp add: validate_sdk_version_def) blast
  next
    case (Inr n)
    have chars: "\<forall>c \<in> set version. is_digit c \<or> is_int_space c \<or> c \<in> set ''+-_''"
      using Inr by (rule py_int_chars)
    show ?thesis
    proof (cases "n < 21 \<or> n > 35")
      case True
      with Inr show ?thesis
        by (simp add: validate_sdk_version_def) (use True in auto)
    next
      case False
      with Inr chars show ?thesis
        by (simp add: validate_sdk_version_def) blast
    qed
  qed
  have canonical: "fst (validate_sdk_version w self (str_int i) 21 35) = Inr (21 \<le> i \<and> i \<le> 35)"
    if lim: "?lim = 0 \<or> 2 \<le> ?lim"
  proof (cases "21 \<le> i \<and> i \<le> 35")
    case True
    then have "length (str_nat (nat \<bar>i\<bar>)) = 2"
      by (intro length_str_nat_two_digits) auto
    with lim have "py_int ?lim (str_int i) = Inr i"
      by (auto simp: py_int_str_int)
    with True show ?thesis
      by (simp add: validate_sdk_version_def)
  next
    case False
    then show ?thesis
      by (auto simp: validate_sdk_version_def py_int_str_int)
  qed
  from general canonical show ?thesis by blast
qed

theorem sdk_version_accepted_iff_in_range_witness:
  "(int_max_str_digits example_world = 0 \<or> 2 \<le> int_max_str_digits example_world)
   \<and> fst (validate_sdk_version example_world AndroidTemplateValidator (str_int 24) 21 35)
       = Inr True
   \<and> (\<exists>c \<in> set ''3x''. \<not> is_digit c \<and> \<not> is_int_space c \<and> c \<notin> set ''+-_'')
   \<and> fst (validate_sdk_version example_world AndroidTemplateValidator ''3x'' 21 35)
       = Inr False"
proof -
  have h1: "int_max_str_digits example_world = 0 \<or> 2 \<le> int_max_str_digits example_world"
    by (simp add: example_world_def)
  have h2: "\<exists>c \<in> set ''3x''. \<not> is_digit c \<and> \<not> is_int_space c \<and> c \<notin> set ''+-_''"
    by (simp add: is_digit_def is_int_space_def in_range_def code_point_def)
  from sdk_version_accepted_iff_in_range
    [of example_world AndroidTemplateValidator "''3x''" 24]
  show ?thesis using h1 h2 by auto
qed

text \<open>
  C4. The claim holds for every string but those that end in one newline: the pattern of
  the source ends in \<^verbatim>\<open>$\<close>, which \<^verbatim>\<open>re.match\<close> also lets match just before a final
  newline. The project name \<^verbatim>\<open>MyApp\<close> followed by a newline, six characters long,
  violates the pattern of the specification (its last character is no letter, digit or
  underscore), and \<^verbatim>\<open>validate_project_name\<close> returns true for it and appends nothing.
\<close>

theorem trailing_newline_project_name_accepted:
  "validate_project_name AndroidTemplateValidator name_with_newline
     = (Inr True, AndroidTemplateValidator)
   \<and> \<not> spec_project_name name_with_newline
   \<and> \<not> list_all is_word_char name_with_newline
   \<and> length name_with_newline = 6"
proof -
  have no: "\<not> list_all is_word_char name_with_newline"
    using newline_is_no_word_char by (simp add: name_with_newline_def)
  have spec: "\<not> spec_project_name name_with_newline"
    using newline_is_no_word_char by (simp add: spec_project_name_def name_with_newline_def)
  have "spec_project_name ''MyApp''"
    by (simp add: spec_project_name_def is_letter_def is_word_char_def upper_AZ_def
        lower_az_def is_digit_def in_range_def code_point_def)
  then have "fst (validate_project_name AndroidTemplateValidator name_with_newline)
      = Inr True"
    by (subst project_name_accepted_iff) (simp add: name_with_newline_def)
  then have matched: "re_match project_name_pattern name_with_newline"
    by (simp add: validate_project_name_def split: if_splits)
  have free: "lower name_with_newline \<notin> set reserved_words"
    by (simp add: lower_name_with_newline reserved_words_def)
  have len: "length name_with_newline = 6" "name_with_newline \<noteq> []"
    by (simp_all add: name_with_newline_def)
  have "validate_project_name AndroidTemplateValidator name_with_newline
     = (Inr True, AndroidTemplateValidator)"
    by (simp add: validate_project_name_def matched free len)
  with no spec len(1) show ?thesis by simp
qed

text \<open>
  The project names that \<^verbatim>\<open>validate_project_name\<close> accepts, on any validator, are the
  strings of the specification's pattern and, beyond them, such a string of at most 49
  characters followed by one newline.
\<close>

theorem accepted_project_names:
  "fst (validate_project_name self name) = Inr True \<longleftrightarrow>
     spec_project_name name
     \<or> (\<exists>base. name = base @ [newline] \<and> spec_project_name base \<and> length base \<le> 49)"
  by (rule project_name_accepted_iff)

end
